theory Spec2Isabelle
  imports Main
begin

section \<open>Values of the program\<close>

text \<open>
  Reading a property of \<open>undefined\<close>, or calling a method on it, raises a
  \<open>TypeError\<close> in JavaScript. A handler either returns or throws; what it did to the
  world before throwing stays done. An \<open>async\<close> function does not throw to its caller:
  the error becomes the rejection of the promise it returns.
\<close>

datatype js_error = TypeError

datatype completion = Returned | Threw js_error | Rejected js_error

type_synonym reaction = string

text \<open>
  A participant object as the handlers read it: \<open>id\<close>, \<open>name\<close>, \<open>email\<close>, \<open>local\<close>,
  \<open>role\<close> and, for a knocking participant, \<open>chattingWithModerator\<close>. A property that
  may be absent is an option.
\<close>

record participant =
  p_id :: string
  p_name :: "string option"
  p_email :: "string option"
  p_local :: bool
  p_role :: string
  chattingWithModerator :: "string option"

text \<open>
  The \<open>JitsiConference\<close> object of the external library: the handlers read
  \<open>myLobbyUserId()\<close> and \<open>getRole()\<close> from it; its commands are recorded as calls.
\<close>

record conference =
  myLobbyUserId :: string
  getRole :: string

datatype lobby_message =
    LOBBY_CHAT_MESSAGE string
  | LOBBY_CHAT_INITIALIZED participant participant
  | MODERATOR_IN_CHAT_WITH_LEFT "string option"

text \<open>
  What the web \<open>MessageRecipient\<close> renders: the class of the element, the key of its
  label, the recipient shown, and the handler of the close button.
\<close>

datatype close_handler = OnHideChallengeResponseRecipient | OnRemovePrivateMessageRecipient

record element =
  className :: string
  labelKey :: string
  recipient :: "string option"
  onClick :: close_handler

record props =
  prop_privateMessageRecipient :: "string option"
  prop_challengeResponseIsActive :: bool
  prop_challengeResponseRecipient :: "string option"
  prop_visible :: bool

text \<open>
  The notification object given to \<open>showNotification\<close>: its title key, the title
  arguments (moderator and attendee names) and the keys of its custom actions.
\<close>

record notification =
  titleKey :: string
  titleArguments :: "(string option \<times> string option) option"
  customActionNameKey :: "string list"

text \<open>
  The redux actions the handlers dispatch. The action a creator makes carries the type
  of the middleware case that handles it (\<open>flushReactionBuffer()\<close>, \<open>sendReactions()\<close>,
  \<open>pushReactions(buffer)\<close>, \<open>updateSettings({soundsReactions})\<close>,
  \<open>conferenceWillJoin(conference)\<close>); an action no case of the sources handles is named
  after its creator (\<open>addReactionsToChat\<close>, \<open>playSound\<close>, ...). The creator
  \<open>displayReactionSoundsNotification\<close> is not among the sources; following the spec (the
  notification that sounds can be disabled, with a moderator-only extra action) its action
  is the one the \<open>SHOW_SOUNDS_NOTIFICATION\<close> case handles.
\<close>

datatype action =
    ADD_REACTION_BUFFER reaction
  | FLUSH_REACTION_BUFFER
  | SEND_REACTIONS
  | PUSH_REACTIONS "reaction list"
  | SHOW_SOUNDS_NOTIFICATION
  | SETTINGS_UPDATED bool
  | CONFERENCE_WILL_JOIN "conference option"
  | AddReactionsToChat string
  | SetReactionQueue "(reaction \<times> nat) list"
  | PlaySound reaction nat
  | SetStartReactionsMuted bool
  | ShowNotification notification
  | SET_KNOCKING_STATE bool
  | SET_LOBBY_PARTICIPANT_CHAT_STATE participant participant
  | OnLobbyChatInitialized participant participant
  | RemoveLobbyChatParticipant bool
  | REMOVE_LOBBY_CHAT_WITH_MODERATOR "string option"
  | HandleLobbyMessageReceived string string

text \<open>Calls on collaborators outside the redux store, in the order they are made.\<close>

datatype call =
    SendEndpointMessage "reaction list" nat
  | SendReactionsWebhook "reaction list"
  | SendAnalytics
  | LoggerWarn string
  | AddCommandListener
  | LobbyApproveAccess string
  | LobbyDenyAccess string
  | SendLobbyMessage lobby_message string
  | SendLocalParticipant
  | JoinLobby "string option" "string option"
  | AddLobbyMessageListener

section \<open>The redux state and the world around it\<close>

text \<open>
  The slices of the redux state the handlers read. The selectors
  \<open>getParticipantCount\<close>, \<open>getParticipantById\<close>, \<open>getLocalParticipant\<close>,
  \<open>isLocalParticipantModerator\<close>, \<open>getDisabledSounds\<close>, \<open>getCurrentConference\<close>,
  \<open>getKnockingParticipants\<close>, \<open>getLobbyEnabled\<close> and \<open>getParticipantDisplayName\<close> are
  not among the sources; the state carries the value each of them yields
  (\<open>reactionSoundDisabled\<close> is \<open>getDisabledSounds(state).includes(REACTION_SOUND)\<close>).
\<close>

record state =
  buffer :: "reaction list"
  timeoutID :: "nat option"
  queue :: "(reaction \<times> nat) list"
  notificationDisplayed :: bool
  soundsReactions :: bool
  reactionSoundDisabled :: bool
  participantCount :: nat
  participantById :: "string \<Rightarrow> participant option"
  localParticipant :: "participant option"
  isLocalParticipantModerator :: bool
  conference :: "conference option"
  currentConference :: "conference option"
  membersOnly :: "conference option"
  startReactionsMuted :: "bool option"
  enableLobbyChat :: "bool option"
  lobbyEnabled :: bool
  knocking :: bool
  knockingParticipants :: "participant list"
  lobbyMessageRecipient :: "participant option"
  privateMessageRecipient :: "participant option"
  challengeResponseRecipient :: "participant option"
  challengeResponseIsActive :: bool
  participantDisplayName :: "string \<Rightarrow> string"

text \<open>
  The world: the redux state, the actions that entered the store, the calls made on
  collaborators, and the timer runtime (\<open>setTimeout\<close>/\<open>clearTimeout\<close>): the clock, the
  pending timers as (id, due time), and the next timer id. Every timer of this program
  has the same callback, \<open>dispatch(flushReactionBuffer())\<close>.
\<close>

record world =
  st :: state
  dispatched :: "action list"
  calls :: "call list"
  now :: nat
  timers :: "(nat \<times> nat) list"
  nextTimer :: nat
  nextUid :: nat

text \<open>
  Functions of \<open>reactions/functions.any\<close> and \<open>reactions/actions\<close> that the middleware
  imports and that are not among the sources are parameters of the model.
\<close>

record env =
  getReactionMessageFromBuffer :: "reaction list \<Rightarrow> string"
  getReactionsSoundsThresholds :: "reaction list \<Rightarrow> (reaction \<times> nat) list"
  displayReactionSoundsNotification :: bool

section \<open>Reducers\<close>

text \<open>
  Modelled from the spec: the reducers are not among the sources. The reaction buffer
  is cleared on flush; the queue takes the value of \<open>setReactionQueue\<close>; the sounds
  notification is surfaced once per session; the mute flag and the sound setting take the
  dispatched values; terminating the lobby chat locally clears the lobby message
  recipient; a chat-initialised message records the moderator on the attendee's knocking
  entry, and dropping the stale pairing of a moderator clears it again. An action of a
  slice that is not modelled (chat messages, notifications, sounds) leaves the modelled
  slices as they are.
\<close>

fun reducer :: "action \<Rightarrow> state \<Rightarrow> state" where
  "reducer FLUSH_REACTION_BUFFER s = s\<lparr>buffer := []\<rparr>"
| "reducer (SetReactionQueue q) s = s\<lparr>queue := q\<rparr>"
| "reducer SHOW_SOUNDS_NOTIFICATION s = s\<lparr>notificationDisplayed := True\<rparr>"
| "reducer (SetStartReactionsMuted b) s = s\<lparr>startReactionsMuted := Some b\<rparr>"
| "reducer (SETTINGS_UPDATED b) s = s\<lparr>soundsReactions := b\<rparr>"
| "reducer (SET_KNOCKING_STATE b) s = s\<lparr>knocking := b\<rparr>"
| "reducer (RemoveLobbyChatParticipant b) s = s\<lparr>lobbyMessageRecipient := None\<rparr>"
| "reducer (SET_LOBBY_PARTICIPANT_CHAT_STATE a m) s =
     s\<lparr>knockingParticipants :=
         map (\<lambda>p. if p_id p = p_id a then p\<lparr>chattingWithModerator := Some (p_id m)\<rparr> else p)
           (knockingParticipants s)\<rparr>"
| "reducer (REMOVE_LOBBY_CHAT_WITH_MODERATOR m) s =
     s\<lparr>knockingParticipants :=
         map (\<lambda>p. if chattingWithModerator p = m then p\<lparr>chattingWithModerator := None\<rparr> else p)
           (knockingParticipants s)\<rparr>"
| "reducer _ s = s"

text \<open>
  Modelled from the spec: the reducer of \<open>ADD_REACTION_BUFFER\<close> is not among the sources.
  It stores the \<open>buffer\<close> and the \<open>timeoutID\<close> the middleware attached to the action, so
  that a single pending flush timer is known to the state.
\<close>

definition reducer_ADD_REACTION_BUFFER :: "reaction list \<Rightarrow> nat \<Rightarrow> state \<Rightarrow> state" where
  "reducer_ADD_REACTION_BUFFER b k s = s\<lparr>buffer := b, timeoutID := Some k\<rparr>"

text \<open>
  Modelled from the spec: \<open>getReactionsWithId\<close> is not among the sources. Each reaction
  of the buffer is tagged with a freshly generated display id.
\<close>

definition getReactionsWithId :: "nat \<Rightarrow> reaction list \<Rightarrow> (reaction \<times> nat) list" where
  "getReactionsWithId uid rs = zip rs [uid ..< uid + length rs]"

section \<open>Dispatch\<close>

definition enter :: "action \<Rightarrow> world \<Rightarrow> world" where
  "enter a w = w\<lparr>dispatched := dispatched w @ [a]\<rparr>"

definition next_reducer :: "action \<Rightarrow> world \<Rightarrow> world" where
  "next_reducer a w = w\<lparr>st := reducer a (st w)\<rparr>"

definition callOut :: "call \<Rightarrow> world \<Rightarrow> world" where
  "callOut c w = w\<lparr>calls := calls w @ [c]\<rparr>"

text \<open>An action for which the reactions middleware has no case goes straight on.\<close>

definition dispatch_plain :: "action \<Rightarrow> world \<Rightarrow> world" where
  "dispatch_plain a w = next_reducer a (enter a w)"

section \<open>The timer runtime\<close>

text \<open>
  \<open>clearTimeout(id)\<close> removes the pending timer of that id and does nothing for
  \<open>undefined\<close> or for an id that is not pending. \<open>setTimeout(callback, delay)\<close> registers
  a timer due \<open>delay\<close> units from now and returns its fresh id.
\<close>

definition clearTimeout :: "nat option \<Rightarrow> world \<Rightarrow> world" where
  "clearTimeout tid w =
     (case tid of
        None \<Rightarrow> w
      | Some k \<Rightarrow> w\<lparr>timers := filter (\<lambda>t. fst t \<noteq> k) (timers w)\<rparr>)"

definition setTimeout :: "nat \<Rightarrow> world \<Rightarrow> nat \<times> world" where
  "setTimeout delay w =
     (nextTimer w,
      w\<lparr>timers := timers w @ [(nextTimer w, now w + delay)], nextTimer := Suc (nextTimer w)\<rparr>)"

section \<open>The reactions middleware\<close>

text \<open>
  One function per \<open>case\<close> of the middleware of \<open>reactions/middleware.js\<close>: the action
  enters the store, the case runs (dispatching nested actions through the same
  middleware), and \<open>next(action)\<close> hands the action to the reducers.
\<close>

definition dispatch_SETTINGS_UPDATED :: "bool \<Rightarrow> world \<Rightarrow> world" where
  "dispatch_SETTINGS_UPDATED v w =
     (let w1 = enter (SETTINGS_UPDATED v) w;
          w2 = (if v = False \<and> soundsReactions (st w1) = True
                then callOut SendAnalytics w1 else w1)
      in next_reducer (SETTINGS_UPDATED v) w2)"

definition dispatch_SEND_REACTIONS :: "world \<Rightarrow> world" where
  "dispatch_SEND_REACTIONS w =
     (let w1 = enter SEND_REACTIONS w;
          w2 = (case conference (st w1) of
                  None \<Rightarrow> w1
                | Some c \<Rightarrow> callOut (SendEndpointMessage (buffer (st w1)) (now w1)) w1)
      in next_reducer SEND_REACTIONS w2)"

definition dispatch_SHOW_SOUNDS_NOTIFICATION :: "world \<Rightarrow> world" where
  "dispatch_SHOW_SOUNDS_NOTIFICATION w =
     (let w1 = enter SHOW_SOUNDS_NOTIFICATION w;
          isModerator = isLocalParticipantModerator (st w1);
          customActions = [''notify.reactionSounds'']
             @ (if isModerator then [''notify.reactionSoundsForAll''] else []);
          w2 = dispatch_plain (ShowNotification
                 \<lparr>titleKey = ''toolbar.disableReactionSounds'', titleArguments = None,
                  customActionNameKey = customActions\<rparr>) w1
      in next_reducer SHOW_SOUNDS_NOTIFICATION w2)"

definition dispatch_PUSH_REACTIONS :: "env \<Rightarrow> reaction list \<Rightarrow> world \<Rightarrow> world" where
  "dispatch_PUSH_REACTIONS E reactions w =
     (let w1 = enter (PUSH_REACTIONS reactions) w;
          state = st w1;
          w2 = (if \<not> notificationDisplayed state \<and> soundsReactions state
                   \<and> \<not> reactionSoundDisabled state \<and> displayReactionSoundsNotification E
                then dispatch_SHOW_SOUNDS_NOTIFICATION w1 else w1);
          w3 = (if soundsReactions state
                then fold (\<lambda>rt. dispatch_plain (PlaySound (fst rt) (snd rt)))
                       (getReactionsSoundsThresholds E reactions) w2
                else w2);
          w4 = dispatch_plain
                 (SetReactionQueue (queue state @ getReactionsWithId (nextUid w3) reactions))
                 (w3\<lparr>nextUid := nextUid w3 + length reactions\<rparr>)
      in next_reducer (PUSH_REACTIONS reactions) w4)"

definition dispatch_FLUSH_REACTION_BUFFER :: "env \<Rightarrow> world \<Rightarrow> world" where
  "dispatch_FLUSH_REACTION_BUFFER E w =
     (let w1 = enter FLUSH_REACTION_BUFFER w;
          state = st w1;
          buf = buffer state;
          w2 = (if participantCount state > 1 then dispatch_SEND_REACTIONS w1 else w1);
          w3 = dispatch_plain (AddReactionsToChat (getReactionMessageFromBuffer E buf)) w2;
          w4 = dispatch_PUSH_REACTIONS E buf w3;
          w5 = callOut (SendReactionsWebhook buf) w4
      in next_reducer FLUSH_REACTION_BUFFER w5)"

definition dispatch_ADD_REACTION_BUFFER :: "reaction \<Rightarrow> world \<Rightarrow> world" where
  "dispatch_ADD_REACTION_BUFFER r w =
     (let w1 = enter (ADD_REACTION_BUFFER r) w;
          w2 = clearTimeout (timeoutID (st w1)) w1;
          buf = buffer (st w2) @ [r];
          (k, w3) = setTimeout 500 w2
      in w3\<lparr>st := reducer_ADD_REACTION_BUFFER buf k (st w3)\<rparr>)"

definition dispatch_CONFERENCE_WILL_JOIN :: "conference option \<Rightarrow> world \<Rightarrow> completion \<times> world" where
  "dispatch_CONFERENCE_WILL_JOIN conf w =
     (let w1 = enter (CONFERENCE_WILL_JOIN conf) w
      in case conf of
           None \<Rightarrow> (Threw TypeError, w1)
         | Some c \<Rightarrow> (Returned, next_reducer (CONFERENCE_WILL_JOIN conf) (callOut AddCommandListener w1)))"

text \<open>
  \<open>_onMuteReactionsCommand(attributes, id, store)\<close>. \<open>attr\<close> is
  \<open>attributes.startReactionsMuted\<close>, \<open>sender\<close> the \<open>id\<close> argument, absent when
  \<open>undefined\<close>.
\<close>

definition onMuteReactionsCommand :: "string option \<Rightarrow> string option \<Rightarrow> world \<Rightarrow> completion \<times> world" where
  "onMuteReactionsCommand attr sender w =
     (let state = st w in
      case sender of
        None \<Rightarrow> (Returned, w)
      | Some i \<Rightarrow>
          (case participantById state i of
             None \<Rightarrow> (Threw TypeError, w)
           | Some participantSendingCommand \<Rightarrow>
               if p_local participantSendingCommand then (Returned, w)
               else if p_role participantSendingCommand \<noteq> ''moderator''
               then (Returned,
                     callOut (LoggerWarn ''Received mute-reactions command not from moderator'') w)
               else
                 (let oldState = (startReactionsMuted state = Some True);
                      newState = (attr = Some ''true'')
                  in if oldState \<noteq> newState
                     then (Returned,
                           dispatch_SETTINGS_UPDATED (\<not> newState)
                             (dispatch_plain (SetStartReactionsMuted newState) w))
                     else (Returned, w))))"

section \<open>What a step added\<close>

definition newActions :: "world \<Rightarrow> world \<Rightarrow> action list" where
  "newActions w w' = drop (length (dispatched w)) (dispatched w')"

definition newCalls :: "world \<Rightarrow> world \<Rightarrow> call list" where
  "newCalls w w' = drop (length (calls w)) (calls w')"

fun pushedOf :: "action \<Rightarrow> reaction list list" where
  "pushedOf (PUSH_REACTIONS b) = [b]"
| "pushedOf _ = []"

text \<open>
  How often the flush case ran, and the buffers it pushed to the display queue, in
  order.
\<close>

definition flushCount :: "world \<Rightarrow> nat" where
  "flushCount w = length (filter (\<lambda>a. a = FLUSH_REACTION_BUFFER) (dispatched w))"

definition flushedBuffers :: "world \<Rightarrow> reaction list list" where
  "flushedBuffers w = concat (map pushedOf (dispatched w))"

text \<open>
  The actions the \<open>PUSH_REACTIONS\<close> case dispatches for sounds, in a state \<open>s\<close>: the
  notification that sounds can be disabled, and one \<open>playSound\<close> per threshold crossed.
\<close>

definition soundActions :: "env \<Rightarrow> reaction list \<Rightarrow> state \<Rightarrow> action list" where
  "soundActions E rs s =
     (if \<not> notificationDisplayed s \<and> soundsReactions s \<and> \<not> reactionSoundDisabled s
          \<and> displayReactionSoundsNotification E
      then [SHOW_SOUNDS_NOTIFICATION,
            ShowNotification \<lparr>titleKey = ''toolbar.disableReactionSounds'', titleArguments = None,
              customActionNameKey = [''notify.reactionSounds'']
                @ (if isLocalParticipantModerator s then [''notify.reactionSoundsForAll''] else [])\<rparr>]
      else [])
     @ (if soundsReactions s
        then map (\<lambda>rt. PlaySound (fst rt) (snd rt)) (getReactionsSoundsThresholds E rs)
        else [])"

section \<open>The event loop\<close>

text \<open>
  JavaScript runs one handler at a time. When the clock moves to \<open>t\<close>, the pending timers
  due by then fire in the order of their due times (the one registered first among
  equals), each running its callback, the dispatch of \<open>flushReactionBuffer()\<close>, to
  completion at its due time.
\<close>

definition earliest :: "(nat \<times> nat) list \<Rightarrow> (nat \<times> nat) option" where
  "earliest ts = (if ts = [] then None else Some (arg_min_list snd ts))"

function advance :: "env \<Rightarrow> nat \<Rightarrow> world \<Rightarrow> world" where
  "advance E t w =
     (case earliest (timers w) of
        None \<Rightarrow> w\<lparr>now := max (now w) t\<rparr>
      | Some kd \<Rightarrow>
          if snd kd \<le> t
          then advance E t
                 (dispatch_FLUSH_REACTION_BUFFER E
                    (w\<lparr>now := max (now w) (snd kd), timers := remove1 kd (timers w)\<rparr>))
          else w\<lparr>now := max (now w) t\<rparr>)"
  by pat_completeness auto
termination
proof (relation "measure (\<lambda>(E, t, w). length (timers w))")
  show "wf (measure (\<lambda>(E :: env, t :: nat, w). length (timers w)))"
    by simp
next
  fix E :: env and t :: nat and w :: world and kd :: "nat \<times> nat"
  assume e: "earliest (timers w) = Some kd" and "snd kd \<le> t"
  have sounds: "timers (fold (\<lambda>rt. dispatch_plain (PlaySound (fst rt) (snd rt))) ts v) = timers v"
    for ts v
    by (induction ts arbitrary: v)
      (simp_all add: dispatch_plain_def enter_def next_reducer_def)
  have keep: "timers (dispatch_FLUSH_REACTION_BUFFER E v) = timers v" for v
    by (simp add: dispatch_FLUSH_REACTION_BUFFER_def dispatch_PUSH_REACTIONS_def
        dispatch_SHOW_SOUNDS_NOTIFICATION_def dispatch_SEND_REACTIONS_def Let_def sounds
        dispatch_plain_def enter_def next_reducer_def callOut_def split: option.splits)
  from e have "kd \<in> set (timers w)"
    by (auto simp: earliest_def arg_min_list_in split: if_splits)
  then have "timers w \<noteq> []" and "length (remove1 kd (timers w)) = length (timers w) - 1"
    by (auto simp: length_remove1)
  then have "length (remove1 kd (timers w)) < length (timers w)"
    by (cases "timers w") simp_all
  then show "((E, t, dispatch_FLUSH_REACTION_BUFFER E
                (w\<lparr>now := max (now w) (snd kd), timers := remove1 kd (timers w)\<rparr>)),
              (E, t, w)) \<in> measure (\<lambda>(E, t, w). length (timers w))"
    by (simp add: keep)
qed

declare advance.simps [simp del]

text \<open>
  A timed run: each event \<open>(t, r)\<close> is an \<open>addReaction(r)\<close> arriving at time \<open>t\<close>, after
  the timers due by \<open>t\<close> have fired.
\<close>

fun run :: "env \<Rightarrow> (nat \<times> reaction) list \<Rightarrow> world \<Rightarrow> world" where
  "run E [] w = w"
| "run E (e # evs) w = run E evs (dispatch_ADD_REACTION_BUFFER (snd e) (advance E (fst e) w))"

section \<open>The lobby actions\<close>

definition async :: "completion \<times> world \<Rightarrow> completion \<times> world" where
  "async r = (case fst r of Threw e \<Rightarrow> (Rejected e, snd r) | _ \<Rightarrow> r)"

definition setKnockingParticipantApproval :: "string \<Rightarrow> bool \<Rightarrow> world \<Rightarrow> completion \<times> world" where
  "setKnockingParticipantApproval i approved w =
     async (case currentConference (st w) of
              None \<Rightarrow> (Returned, w)
            | Some c \<Rightarrow>
                if approved then (Returned, callOut (LobbyApproveAccess i) w)
                else (Returned, callOut (LobbyDenyAccess i) w))"

fun forEach_lobbyApproveAccess :: "conference option \<Rightarrow> participant list \<Rightarrow> world \<Rightarrow> completion \<times> world" where
  "forEach_lobbyApproveAccess conf [] w = (Returned, w)"
| "forEach_lobbyApproveAccess conf (p # ps) w =
     (case conf of
        None \<Rightarrow> (Threw TypeError, w)
      | Some c \<Rightarrow> forEach_lobbyApproveAccess conf ps (callOut (LobbyApproveAccess (p_id p)) w))"

definition admitMultiple :: "participant list \<Rightarrow> world \<Rightarrow> completion \<times> world" where
  "admitMultiple participants w =
     forEach_lobbyApproveAccess (currentConference (st w)) participants w"

text \<open>
  \<open>lobbyApproveAccess\<close> belongs to the external library, and the loop of \<open>admitMultiple\<close>
  has no \<open>try\<close> around it. How one call of it ends is a parameter of the loop below: the
  call returns and the server admits the participant, the call returns and the server
  rejects the approval later, or the call throws. A call that was made is recorded, however
  it ends. \<open>admitMultiple\<close> above is this loop on a collaborator whose calls all return.
\<close>

datatype call_outcome = Honoured | RejectedByServer | Throws js_error

fun returns :: "call_outcome \<Rightarrow> bool" where
  "returns (Throws e) = False"
| "returns _ = True"

fun forEach_lobbyApproveAccess_on :: "(string \<Rightarrow> call_outcome) \<Rightarrow> conference option \<Rightarrow> participant list \<Rightarrow> world \<Rightarrow> completion \<times> world" where
  "forEach_lobbyApproveAccess_on outcome conf [] w = (Returned, w)"
| "forEach_lobbyApproveAccess_on outcome conf (p # ps) w =
     (case conf of
        None \<Rightarrow> (Threw TypeError, w)
      | Some c \<Rightarrow>
          (case outcome (p_id p) of
             Throws e \<Rightarrow> (Threw e, callOut (LobbyApproveAccess (p_id p)) w)
           | _ \<Rightarrow>
               forEach_lobbyApproveAccess_on outcome conf ps
                 (callOut (LobbyApproveAccess (p_id p)) w)))"

definition admitMultiple_on :: "(string \<Rightarrow> call_outcome) \<Rightarrow> participant list \<Rightarrow> world \<Rightarrow> completion \<times> world" where
  "admitMultiple_on outcome participants w =
     forEach_lobbyApproveAccess_on outcome (currentConference (st w)) participants w"

definition approveKnockingParticipant :: "string \<Rightarrow> world \<Rightarrow> completion \<times> world" where
  "approveKnockingParticipant i w =
     (case currentConference (st w) of
        None \<Rightarrow> (Returned, w)
      | Some c \<Rightarrow> (Returned, callOut (LobbyApproveAccess i) w))"

definition rejectKnockingParticipant :: "string \<Rightarrow> world \<Rightarrow> completion \<times> world" where
  "rejectKnockingParticipant i w =
     (case currentConference (st w) of
        None \<Rightarrow> (Returned, w)
      | Some c \<Rightarrow> (Returned, callOut (LobbyDenyAccess i) w))"

definition setLobbyMessageListener :: "world \<Rightarrow> completion \<times> world" where
  "setLobbyMessageListener w =
     async (let state = st w; conf = currentConference state in
            if enableLobbyChat state = Some False then (Returned, w)
            else case conf of
                   None \<Rightarrow> (Threw TypeError, w)
                 | Some c \<Rightarrow> (Returned, callOut AddLobbyMessageListener w))"

text \<open>
  \<open>startKnocking\<close> does not await the promise of \<open>dispatch(setLobbyMessageListener())\<close>:
  a rejection of it does not stop what follows.
\<close>

definition startKnocking :: "world \<Rightarrow> completion \<times> world" where
  "startKnocking w =
     async (let state = st w; mo = membersOnly state; lp = localParticipant state in
            case dispatch_CONFERENCE_WILL_JOIN mo w of
              (Returned, w1) \<Rightarrow>
                (let w2 = callOut SendLocalParticipant w1 in
                 case mo of
                   None \<Rightarrow> (Threw TypeError, w2)
                 | Some c \<Rightarrow>
                     (case lp of
                        None \<Rightarrow> (Threw TypeError, w2)
                      | Some l \<Rightarrow>
                          (let w3 = callOut (JoinLobby (p_name l) (p_email l)) w2;
                               w4 = snd (setLobbyMessageListener w3)
                           in (Returned, dispatch_plain (SET_KNOCKING_STATE True) w4))))
            | (c, w1) \<Rightarrow> (c, w1))"

definition handleLobbyChatInitialized :: "participant \<Rightarrow> participant \<Rightarrow> world \<Rightarrow> completion \<times> world" where
  "handleLobbyChatInitialized moderator attendee w =
     async (let state = st w in
            case currentConference state of
              None \<Rightarrow> (Threw TypeError, w)
            | Some conf \<Rightarrow>
                (let i = myLobbyUserId conf;
                     w1 = dispatch_plain (SET_LOBBY_PARTICIPANT_CHAT_STATE attendee moderator) w;
                     w2 = dispatch_plain (OnLobbyChatInitialized moderator attendee) w1;
                     attendeeIsKnocking =
                       list_ex (\<lambda>p. p_id p = p_id attendee) (knockingParticipants state)
                 in if attendeeIsKnocking \<and> getRole conf = ''moderator'' \<and> p_id moderator \<noteq> i
                    then (Returned,
                          dispatch_plain (ShowNotification
                            \<lparr>titleKey = ''lobby.lobbyChatStartedNotification'',
                             titleArguments = Some (p_name moderator, p_name attendee),
                             customActionNameKey = []\<rparr>) w2)
                    else (Returned, w2)))"

definition updateLobbyParticipantOnModeratorLeave :: "string option \<Rightarrow> world \<Rightarrow> completion \<times> world" where
  "updateLobbyParticipantOnModeratorLeave participantId w =
     async (let state = st w in
            if knocking state
               \<and> (case lobbyMessageRecipient state of
                     None \<Rightarrow> False
                   | Some r \<Rightarrow> Some (p_id r) = participantId)
            then (Returned, dispatch_plain (RemoveLobbyChatParticipant True) w)
            else if \<not> knocking state
            then (case find (\<lambda>p. chattingWithModerator p = participantId)
                         (knockingParticipants state) of
                    None \<Rightarrow>
                      (Returned, dispatch_plain (REMOVE_LOBBY_CHAT_WITH_MODERATOR participantId) w)
                  | Some participantToNotify \<Rightarrow>
                      (case conference state of
                         None \<Rightarrow> (Threw TypeError, w)
                       | Some c \<Rightarrow>
                           (Returned,
                            dispatch_plain (REMOVE_LOBBY_CHAT_WITH_MODERATOR participantId)
                              (callOut (SendLobbyMessage
                                  (MODERATOR_IN_CHAT_WITH_LEFT
                                     (chattingWithModerator participantToNotify))
                                  (p_id participantToNotify)) w))))
            else (Returned, w))"

text \<open>
  The listener \<open>setLobbyMessageListener\<close> registers: a closed three-way switch on the
  message type. \<open>handleLobbyMessageReceived\<close> belongs to the chat middleware, which is not
  among the sources; its dispatch is recorded.
\<close>

definition lobbyMessageListener :: "lobby_message \<Rightarrow> string \<Rightarrow> world \<Rightarrow> completion \<times> world" where
  "lobbyMessageListener message participantId w =
     (case message of
        LOBBY_CHAT_MESSAGE m \<Rightarrow>
          (Returned, dispatch_plain (HandleLobbyMessageReceived m participantId) w)
      | LOBBY_CHAT_INITIALIZED moderator attendee \<Rightarrow>
          handleLobbyChatInitialized moderator attendee w
      | MODERATOR_IN_CHAT_WITH_LEFT moderatorId \<Rightarrow>
          updateLobbyParticipantOnModeratorLeave moderatorId w)"

section \<open>The web message recipient\<close>

text \<open>A string or \<open>undefined\<close> is truthy when it is a non-empty string.\<close>

definition truthy :: "string option \<Rightarrow> bool" where
  "truthy v = (case v of None \<Rightarrow> False | Some s \<Rightarrow> s \<noteq> [])"

definition mapStateToProps :: "state \<Rightarrow> props" where
  "mapStateToProps s =
     \<lparr>prop_privateMessageRecipient =
        (case privateMessageRecipient s of
           None \<Rightarrow> None
         | Some r \<Rightarrow> Some (participantDisplayName s (p_id r))),
      prop_challengeResponseIsActive = challengeResponseIsActive s,
      prop_challengeResponseRecipient =
        (if challengeResponseIsActive s
         then (case challengeResponseRecipient s of None \<Rightarrow> None | Some r \<Rightarrow> p_name r)
         else None),
      prop_visible =
        (if challengeResponseIsActive s then isLocalParticipantModerator s else True)\<rparr>"

definition render :: "props \<Rightarrow> element option" where
  "render p =
     (if (\<not> truthy (prop_privateMessageRecipient p) \<and> \<not> prop_challengeResponseIsActive p)
         \<or> \<not> prop_visible p
      then None
      else Some
        \<lparr>className =
           (if prop_challengeResponseIsActive p then ''challenge-response-recipient'' else []),
         labelKey =
           (if prop_challengeResponseIsActive p then ''chat.challengeResponseMessageTo''
            else ''chat.messageTo''),
         recipient =
           (if prop_challengeResponseIsActive p then prop_challengeResponseRecipient p
            else prop_privateMessageRecipient p),
         onClick =
           (if prop_challengeResponseIsActive p then OnHideChallengeResponseRecipient
            else OnRemovePrivateMessageRecipient)\<rparr>)"

section \<open>Example worlds\<close>

text \<open>
  A moderator's client in a conference of two, with one participant knocking; and the
  functions the middleware imports, at simple values.
\<close>

definition exampleConference :: conference where
  "exampleConference = \<lparr>myLobbyUserId = ''m2'', getRole = ''moderator''\<rparr>"

definition exampleModerator :: participant where
  "exampleModerator =
     \<lparr>p_id = ''m1'', p_name = Some ''Mona'', p_email = None, p_local = False,
      p_role = ''moderator'', chattingWithModerator = None\<rparr>"

definition exampleLocal :: participant where
  "exampleLocal =
     \<lparr>p_id = ''me'', p_name = Some ''Me'', p_email = None, p_local = True,
      p_role = ''moderator'', chattingWithModerator = None\<rparr>"

definition exampleGuest :: participant where
  "exampleGuest =
     \<lparr>p_id = ''g1'', p_name = Some ''Gus'', p_email = None, p_local = False,
      p_role = ''participant'', chattingWithModerator = None\<rparr>"

definition exampleAttendee :: participant where
  "exampleAttendee =
     \<lparr>p_id = ''x'', p_name = Some ''Xavier'', p_email = None, p_local = False,
      p_role = ''none'', chattingWithModerator = Some ''m1''\<rparr>"

definition exampleState :: state where
  "exampleState =
     \<lparr>buffer = [], timeoutID = None, queue = [], notificationDisplayed = True,
      soundsReactions = True, reactionSoundDisabled = False, participantCount = 2,
      participantById =
        map_of [(''m1'', exampleModerator), (''me'', exampleLocal), (''g1'', exampleGuest)],
      localParticipant = Some exampleLocal, isLocalParticipantModerator = True,
      conference = Some exampleConference, currentConference = Some exampleConference,
      membersOnly = Some exampleConference, startReactionsMuted = None,
      enableLobbyChat = None, lobbyEnabled = True, knocking = False,
      knockingParticipants = [exampleAttendee], lobbyMessageRecipient = None,
      privateMessageRecipient = None, challengeResponseRecipient = None,
      challengeResponseIsActive = False, participantDisplayName = (\<lambda>i. i)\<rparr>"

definition exampleWorld :: world where
  "exampleWorld =
     \<lparr>st = exampleState, dispatched = [], calls = [], now = 0, timers = [], nextTimer = 0,
      nextUid = 0\<rparr>"

definition exampleEnv :: env where
  "exampleEnv =
     \<lparr>getReactionMessageFromBuffer = concat, getReactionsSoundsThresholds = (\<lambda>rs. []),
      displayReactionSoundsNotification = True\<rparr>"

text \<open>The same client before it joined: knocking, chatting with the moderator \<open>m1\<close>.\<close>

definition exampleKnockingWorld :: world where
  "exampleKnockingWorld =
     exampleWorld\<lparr>st := exampleState\<lparr>knocking := True, knockingParticipants := [],
       lobbyMessageRecipient := Some exampleModerator\<rparr>\<rparr>"

text \<open>A client with no conference at all.\<close>

definition exampleNoConferenceWorld :: world where
  "exampleNoConferenceWorld =
     exampleWorld\<lparr>st := exampleState\<lparr>conference := None, currentConference := None,
       membersOnly := None\<rparr>\<rparr>"



section \<open>Facts about dispatch\<close>

lemmas plain_defs = enter_def next_reducer_def callOut_def dispatch_plain_def

lemma dispatched_fold_PlaySound:
  "dispatched (fold (\<lambda>rt. dispatch_plain (PlaySound (fst rt) (snd rt))) ts w)
     = dispatched w @ map (\<lambda>rt. PlaySound (fst rt) (snd rt)) ts"
  by (induction ts arbitrary: w) (simp_all add: plain_defs)

lemma st_fold_PlaySound:
  "st (fold (\<lambda>rt. dispatch_plain (PlaySound (fst rt) (snd rt))) ts w) = st w"
  by (induction ts arbitrary: w) (simp_all add: plain_defs)

lemma calls_fold_PlaySound:
  "calls (fold (\<lambda>rt. dispatch_plain (PlaySound (fst rt) (snd rt))) ts w) = calls w"
  by (induction ts arbitrary: w) (simp_all add: plain_defs)

lemma nextUid_fold_PlaySound:
  "nextUid (fold (\<lambda>rt. dispatch_plain (PlaySound (fst rt) (snd rt))) ts w) = nextUid w"
  by (induction ts arbitrary: w) (simp_all add: plain_defs)

lemma timers_fold_PlaySound:
  "timers (fold (\<lambda>rt. dispatch_plain (PlaySound (fst rt) (snd rt))) ts w) = timers w"
  by (induction ts arbitrary: w) (simp_all add: plain_defs)

lemma now_fold_PlaySound:
  "now (fold (\<lambda>rt. dispatch_plain (PlaySound (fst rt) (snd rt))) ts w) = now w"
  by (induction ts arbitrary: w) (simp_all add: plain_defs)

lemmas fold_PlaySound = dispatched_fold_PlaySound st_fold_PlaySound calls_fold_PlaySound
  nextUid_fold_PlaySound timers_fold_PlaySound now_fold_PlaySound

lemmas push_defs = dispatch_PUSH_REACTIONS_def dispatch_SHOW_SOUNDS_NOTIFICATION_def Let_def
  fold_PlaySound plain_defs

lemma dispatched_PUSH:
  "dispatched (dispatch_PUSH_REACTIONS E rs w)
     = dispatched w @ [PUSH_REACTIONS rs] @ soundActions E rs (st w)
        @ [SetReactionQueue (queue (st w) @ getReactionsWithId (nextUid w) rs)]"
  by (simp add: push_defs soundActions_def)

lemma calls_PUSH: "calls (dispatch_PUSH_REACTIONS E rs w) = calls w"
  by (simp add: push_defs)

lemma queue_PUSH:
  "queue (st (dispatch_PUSH_REACTIONS E rs w)) = queue (st w) @ getReactionsWithId (nextUid w) rs"
  by (simp add: push_defs)

lemma timers_PUSH: "timers (dispatch_PUSH_REACTIONS E rs w) = timers w"
  by (simp add: push_defs)

lemma now_PUSH: "now (dispatch_PUSH_REACTIONS E rs w) = now w"
  by (simp add: push_defs)

lemma st_SEND: "st (dispatch_SEND_REACTIONS w) = st w"
  by (simp add: dispatch_SEND_REACTIONS_def Let_def plain_defs split: option.splits)

lemma dispatched_SEND: "dispatched (dispatch_SEND_REACTIONS w) = dispatched w @ [SEND_REACTIONS]"
  by (simp add: dispatch_SEND_REACTIONS_def Let_def plain_defs split: option.splits)

lemma calls_SEND:
  "calls (dispatch_SEND_REACTIONS w) = calls w @
     (case conference (st w) of
        None \<Rightarrow> []
      | Some c \<Rightarrow> [SendEndpointMessage (buffer (st w)) (now w)])"
  by (simp add: dispatch_SEND_REACTIONS_def Let_def plain_defs split: option.splits)

lemma timers_SEND: "timers (dispatch_SEND_REACTIONS w) = timers w"
  by (simp add: dispatch_SEND_REACTIONS_def Let_def plain_defs split: option.splits)

lemma now_SEND: "now (dispatch_SEND_REACTIONS w) = now w"
  by (simp add: dispatch_SEND_REACTIONS_def Let_def plain_defs split: option.splits)

lemma nextUid_SEND: "nextUid (dispatch_SEND_REACTIONS w) = nextUid w"
  by (simp add: dispatch_SEND_REACTIONS_def Let_def plain_defs split: option.splits)

lemma dispatched_FLUSH:
  "dispatched (dispatch_FLUSH_REACTION_BUFFER E w)
     = dispatched w @ [FLUSH_REACTION_BUFFER]
        @ (if 1 < participantCount (st w) then [SEND_REACTIONS] else [])
        @ [AddReactionsToChat (getReactionMessageFromBuffer E (buffer (st w))),
           PUSH_REACTIONS (buffer (st w))]
        @ soundActions E (buffer (st w)) (st w)
        @ [SetReactionQueue (queue (st w) @ getReactionsWithId (nextUid w) (buffer (st w)))]"
  by (simp add: dispatch_FLUSH_REACTION_BUFFER_def Let_def dispatched_PUSH st_SEND dispatched_SEND
      nextUid_SEND plain_defs)

lemma calls_FLUSH:
  "calls (dispatch_FLUSH_REACTION_BUFFER E w)
     = calls w
        @ (if 1 < participantCount (st w) \<and> conference (st w) \<noteq> None
           then [SendEndpointMessage (buffer (st w)) (now w)] else [])
        @ [SendReactionsWebhook (buffer (st w))]"
  by (simp add: dispatch_FLUSH_REACTION_BUFFER_def Let_def calls_PUSH st_SEND calls_SEND
      now_SEND plain_defs split: option.splits)

lemma queue_FLUSH:
  "queue (st (dispatch_FLUSH_REACTION_BUFFER E w))
     = queue (st w) @ getReactionsWithId (nextUid w) (buffer (st w))"
  by (simp add: dispatch_FLUSH_REACTION_BUFFER_def Let_def queue_PUSH st_SEND nextUid_SEND plain_defs)

lemma buffer_FLUSH: "buffer (st (dispatch_FLUSH_REACTION_BUFFER E w)) = []"
  by (simp add: dispatch_FLUSH_REACTION_BUFFER_def Let_def plain_defs)

lemma timers_FLUSH: "timers (dispatch_FLUSH_REACTION_BUFFER E w) = timers w"
  by (simp add: dispatch_FLUSH_REACTION_BUFFER_def Let_def timers_PUSH timers_SEND plain_defs)

lemma now_FLUSH: "now (dispatch_FLUSH_REACTION_BUFFER E w) = now w"
  by (simp add: dispatch_FLUSH_REACTION_BUFFER_def Let_def now_PUSH now_SEND plain_defs)

lemma SEND_notin_soundActions: "SEND_REACTIONS \<notin> set (soundActions E rs s)"
  by (auto simp: soundActions_def)

lemma newActions_append [simp]: "dispatched w' = dispatched w @ as \<Longrightarrow> newActions w w' = as"
  by (simp add: newActions_def)

lemma newCalls_append [simp]: "calls w' = calls w @ cs \<Longrightarrow> newCalls w w' = cs"
  by (simp add: newCalls_def)

section \<open>Flushing the reaction buffer\<close>

text \<open>
  C7. Whatever the buffer holds (so in particular when it is not empty), the flush
  requests the network send, the dispatch of \<open>sendReactions()\<close>, exactly when the
  participant count is greater than one; the \<open>SEND_REACTIONS\<close> case then calls
  \<open>conference.sendEndpointMessage\<close> with the buffer when a conference object exists. The
  chat message of the buffer is dispatched and the buffer is pushed to the display queue
  for every participant count.
\<close>

theorem flush_sends_iff_more_than_one_participant:
  "(SEND_REACTIONS \<in> set (newActions w (dispatch_FLUSH_REACTION_BUFFER E w))
      \<longleftrightarrow> 1 < participantCount (st w))
   \<and> (SendEndpointMessage (buffer (st w)) (now w)
        \<in> set (newCalls w (dispatch_FLUSH_REACTION_BUFFER E w))
      \<longleftrightarrow> 1 < participantCount (st w) \<and> conference (st w) \<noteq> None)
   \<and> AddReactionsToChat (getReactionMessageFromBuffer E (buffer (st w)))
        \<in> set (newActions w (dispatch_FLUSH_REACTION_BUFFER E w))
   \<and> PUSH_REACTIONS (buffer (st w)) \<in> set (newActions w (dispatch_FLUSH_REACTION_BUFFER E w))
   \<and> queue (st (dispatch_FLUSH_REACTION_BUFFER E w))
        = queue (st w) @ getReactionsWithId (nextUid w) (buffer (st w))"
proof -
  let ?w' = "dispatch_FLUSH_REACTION_BUFFER E w"
  have a: "newActions w ?w' =
      [FLUSH_REACTION_BUFFER]
        @ (if 1 < participantCount (st w) then [SEND_REACTIONS] else [])
        @ [AddReactionsToChat (getReactionMessageFromBuffer E (buffer (st w))),
           PUSH_REACTIONS (buffer (st w))]
        @ soundActions E (buffer (st w)) (st w)
        @ [SetReactionQueue (queue (st w) @ getReactionsWithId (nextUid w) (buffer (st w)))]"
    by (rule newActions_append) (simp add: dispatched_FLUSH)
  have c: "newCalls w ?w' =
      (if 1 < participantCount (st w) \<and> conference (st w) \<noteq> None
       then [SendEndpointMessage (buffer (st w)) (now w)] else [])
      @ [SendReactionsWebhook (buffer (st w))]"
    by (rule newCalls_append) (simp add: calls_FLUSH)
  show ?thesis
    by (simp add: a c SEND_notin_soundActions queue_FLUSH)
qed

theorem flush_sends_iff_more_than_one_participant_witness:
  "(SEND_REACTIONS
      \<in> set (newActions exampleWorld (dispatch_FLUSH_REACTION_BUFFER exampleEnv exampleWorld))
      \<longleftrightarrow> 1 < participantCount (st exampleWorld))
   \<and> (SendEndpointMessage (buffer (st exampleWorld)) (now exampleWorld)
        \<in> set (newCalls exampleWorld (dispatch_FLUSH_REACTION_BUFFER exampleEnv exampleWorld))
      \<longleftrightarrow> 1 < participantCount (st exampleWorld) \<and> conference (st exampleWorld) \<noteq> None)
   \<and> AddReactionsToChat (getReactionMessageFromBuffer exampleEnv (buffer (st exampleWorld)))
        \<in> set (newActions exampleWorld (dispatch_FLUSH_REACTION_BUFFER exampleEnv exampleWorld))
   \<and> PUSH_REACTIONS (buffer (st exampleWorld))
        \<in> set (newActions exampleWorld (dispatch_FLUSH_REACTION_BUFFER exampleEnv exampleWorld))
   \<and> queue (st (dispatch_FLUSH_REACTION_BUFFER exampleEnv exampleWorld))
        = queue (st exampleWorld)
          @ getReactionsWithId (nextUid exampleWorld) (buffer (st exampleWorld))"
  by (rule flush_sends_iff_more_than_one_participant)

lemma newActions_FLUSH:
  "newActions w (dispatch_FLUSH_REACTION_BUFFER E w) =
      [FLUSH_REACTION_BUFFER]
        @ (if 1 < participantCount (st w) then [SEND_REACTIONS] else [])
        @ [AddReactionsToChat (getReactionMessageFromBuffer E (buffer (st w))),
           PUSH_REACTIONS (buffer (st w))]
        @ soundActions E (buffer (st w)) (st w)
        @ [SetReactionQueue (queue (st w) @ getReactionsWithId (nextUid w) (buffer (st w)))]"
  by (rule newActions_append) (simp add: dispatched_FLUSH)

lemma newCalls_FLUSH:
  "newCalls w (dispatch_FLUSH_REACTION_BUFFER E w) =
      (if 1 < participantCount (st w) \<and> conference (st w) \<noteq> None
       then [SendEndpointMessage (buffer (st w)) (now w)] else [])
      @ [SendReactionsWebhook (buffer (st w))]"
  by (rule newCalls_append) (simp add: calls_FLUSH)

lemmas example_defs = exampleWorld_def exampleState_def exampleEnv_def exampleConference_def
  exampleModerator_def exampleLocal_def exampleGuest_def exampleAttendee_def
  exampleKnockingWorld_def exampleNoConferenceWorld_def

text \<open>
  C6, as the claim states it, fails: with two participants and a conference, a flush of
  the empty buffer sends an endpoint message carrying no reactions and dispatches the chat
  message of the empty buffer.
\<close>

theorem flush_empty_buffer_counterexample:
  "buffer (st exampleWorld) = []
   \<and> newCalls exampleWorld (dispatch_FLUSH_REACTION_BUFFER exampleEnv exampleWorld)
       = [SendEndpointMessage [] 0, SendReactionsWebhook []]
   \<and> newActions exampleWorld (dispatch_FLUSH_REACTION_BUFFER exampleEnv exampleWorld)
       = [FLUSH_REACTION_BUFFER, SEND_REACTIONS, AddReactionsToChat [], PUSH_REACTIONS [],
          SetReactionQueue []]"
  by (simp add: newActions_FLUSH newCalls_FLUSH soundActions_def getReactionsWithId_def
      example_defs)

text \<open>
  C6, amended. A flush of the empty buffer adds no entry to the display queue: the queue
  is set to what it held. The chat message of the empty buffer is still dispatched, and the
  network send is still requested exactly when the participant count is greater than one,
  reaching \<open>conference.sendEndpointMessage\<close>, with no reactions, when a conference
  object exists.
\<close>

theorem flush_empty_buffer:
  assumes "buffer (st w) = []"
  shows "queue (st (dispatch_FLUSH_REACTION_BUFFER E w)) = queue (st w)
   \<and> SetReactionQueue (queue (st w)) \<in> set (newActions w (dispatch_FLUSH_REACTION_BUFFER E w))
   \<and> AddReactionsToChat (getReactionMessageFromBuffer E [])
        \<in> set (newActions w (dispatch_FLUSH_REACTION_BUFFER E w))
   \<and> (SEND_REACTIONS \<in> set (newActions w (dispatch_FLUSH_REACTION_BUFFER E w))
        \<longleftrightarrow> 1 < participantCount (st w))
   \<and> (SendEndpointMessage [] (now w) \<in> set (newCalls w (dispatch_FLUSH_REACTION_BUFFER E w))
        \<longleftrightarrow> 1 < participantCount (st w) \<and> conference (st w) \<noteq> None)"
  using assms
  by (simp add: newActions_FLUSH newCalls_FLUSH queue_FLUSH getReactionsWithId_def
      SEND_notin_soundActions)

theorem flush_empty_buffer_witness:
  "buffer (st exampleWorld) = []
   \<and> (queue (st (dispatch_FLUSH_REACTION_BUFFER exampleEnv exampleWorld)) = queue (st exampleWorld)
   \<and> SetReactionQueue (queue (st exampleWorld))
        \<in> set (newActions exampleWorld (dispatch_FLUSH_REACTION_BUFFER exampleEnv exampleWorld))
   \<and> AddReactionsToChat (getReactionMessageFromBuffer exampleEnv [])
        \<in> set (newActions exampleWorld (dispatch_FLUSH_REACTION_BUFFER exampleEnv exampleWorld))
   \<and> (SEND_REACTIONS
        \<in> set (newActions exampleWorld (dispatch_FLUSH_REACTION_BUFFER exampleEnv exampleWorld))
        \<longleftrightarrow> 1 < participantCount (st exampleWorld))
   \<and> (SendEndpointMessage [] (now exampleWorld)
        \<in> set (newCalls exampleWorld (dispatch_FLUSH_REACTION_BUFFER exampleEnv exampleWorld))
        \<longleftrightarrow> 1 < participantCount (st exampleWorld) \<and> conference (st exampleWorld) \<noteq> None))"
proof -
  have h: "buffer (st exampleWorld) = []"
    by (simp add: example_defs)
  show ?thesis
    by (rule conjI [OF h flush_empty_buffer [OF h]])
qed

section \<open>The debounced flush\<close>

lemma pushedOf_soundActions: "concat (map pushedOf (soundActions E rs s)) = []"
  by (auto simp: soundActions_def)

lemma FLUSH_notin_soundActions:
  "filter (\<lambda>a. a = FLUSH_REACTION_BUFFER) (soundActions E rs s) = []"
  by (auto simp: soundActions_def filter_empty_conv)

lemma flushCount_FLUSH:
  "flushCount (dispatch_FLUSH_REACTION_BUFFER E w) = Suc (flushCount w)"
  by (simp add: flushCount_def dispatched_FLUSH FLUSH_notin_soundActions)

lemma flushedBuffers_FLUSH:
  "flushedBuffers (dispatch_FLUSH_REACTION_BUFFER E w) = flushedBuffers w @ [buffer (st w)]"
  by (simp add: flushedBuffers_def dispatched_FLUSH pushedOf_soundActions)

lemma advance_idle:
  assumes "timers w = []"
  shows "advance E t w = w\<lparr>now := max (now w) t\<rparr>"
  using assms by (subst advance.simps) (simp add: earliest_def)

lemma advance_not_due:
  assumes "timers w = [(k, d)]" and "t < d"
  shows "advance E t w = w\<lparr>now := max (now w) t\<rparr>"
  using assms by (subst advance.simps) (simp add: earliest_def)

lemma advance_due:
  assumes "timers w = [(k, d)]" and "d \<le> t"
  shows "advance E t w =
    (dispatch_FLUSH_REACTION_BUFFER E (w\<lparr>now := max (now w) d, timers := []\<rparr>))
      \<lparr>now := max (max (now w) d) t\<rparr>"
proof -
  let ?v = "dispatch_FLUSH_REACTION_BUFFER E (w\<lparr>now := max (now w) d, timers := []\<rparr>)"
  have "advance E t w = advance E t ?v"
    using assms by (subst advance.simps) (simp add: earliest_def)
  also have "\<dots> = ?v\<lparr>now := max (now ?v) t\<rparr>"
    by (rule advance_idle) (simp add: timers_FLUSH)
  finally show ?thesis
    by (simp add: now_FLUSH)
qed

text \<open>One \<open>addReaction\<close>: the pending timer is cancelled and a new one is due in 500.\<close>

lemma ADD_rearms:
  assumes "timers w = [] \<or> (\<exists>d. timers w = [(k, d)] \<and> timeoutID (st w) = Some k)"
  shows "timers (dispatch_ADD_REACTION_BUFFER r w) = [(nextTimer w, now w + 500)]"
    and "timeoutID (st (dispatch_ADD_REACTION_BUFFER r w)) = Some (nextTimer w)"
    and "buffer (st (dispatch_ADD_REACTION_BUFFER r w)) = buffer (st w) @ [r]"
    and "now (dispatch_ADD_REACTION_BUFFER r w) = now w"
    and "dispatched (dispatch_ADD_REACTION_BUFFER r w) = dispatched w @ [ADD_REACTION_BUFFER r]"
    and "calls (dispatch_ADD_REACTION_BUFFER r w) = calls w"
  using assms
  by (auto simp: dispatch_ADD_REACTION_BUFFER_def clearTimeout_def setTimeout_def
      reducer_ADD_REACTION_BUFFER_def enter_def Let_def split: option.splits)

text \<open>
  While every reaction arrives before the pending timer is due, the run keeps exactly one
  timer pending, due 500 after the last arrival, and no flush fires.
\<close>

lemma run_armed:
  assumes "timers w = [(k, now w + 500)]" and "timeoutID (st w) = Some k"
    and "sorted (map fst evs)"
    and "\<forall>e \<in> set evs. now w \<le> fst e \<and> fst e < c + 500" and "c \<le> now w"
  shows "(\<exists>k'. timers (run E evs w) = [(k', last (now w # map fst evs) + 500)]
            \<and> timeoutID (st (run E evs w)) = Some k')
     \<and> now (run E evs w) = last (now w # map fst evs)
     \<and> buffer (st (run E evs w)) = buffer (st w) @ map snd evs
     \<and> dispatched (run E evs w) = dispatched w @ map (\<lambda>e. ADD_REACTION_BUFFER (snd e)) evs
     \<and> calls (run E evs w) = calls w"
  using assms
proof (induction evs arbitrary: w k)
  case Nil
  then show ?case by simp
next
  case (Cons e evs)
  let ?a = "advance E (fst e) w"
  let ?w = "dispatch_ADD_REACTION_BUFFER (snd e) ?a"
  from Cons.prems have t: "now w \<le> fst e" "fst e < now w + 500"
    by auto
  have a: "?a = w\<lparr>now := fst e\<rparr>"
    using advance_not_due [OF Cons.prems(1) t(2)] t(1) by (simp add: max_def)
  have armed: "timers ?a = [] \<or> (\<exists>d. timers ?a = [(k, d)] \<and> timeoutID (st ?a) = Some k)"
    using Cons.prems(1,2) by (simp add: a)
  note r = ADD_rearms [OF armed, of "snd e"]
  have 1: "timers ?w = [(nextTimer ?a, now ?w + 500)]"
    using r(1) r(4) by simp
  have 2: "timeoutID (st ?w) = Some (nextTimer ?a)"
    by (rule r(2))
  have n: "now ?w = fst e"
    using r(4) by (simp add: a)
  have 3: "sorted (map fst evs)"
    using Cons.prems(3) by simp
  have 4: "\<forall>e' \<in> set evs. now ?w \<le> fst e' \<and> fst e' < c + 500"
    using Cons.prems(3,4) n by auto
  have 5: "c \<le> now ?w"
    using Cons.prems(5) t(1) n by simp
  have b: "buffer (st ?w) = buffer (st w) @ [snd e]"
    and d: "dispatched ?w = dispatched w @ [ADD_REACTION_BUFFER (snd e)]"
    and c: "calls ?w = calls w"
    using r(3) r(5) r(6) by (simp_all add: a)
  have step: "run E (e # evs) w = run E evs ?w"
    by simp
  have L: "last (now w # map fst (e # evs)) = last (now ?w # map fst evs)"
    by (simp add: n)
  from Cons.IH [OF 1 2 3 4 5] show ?case
    unfolding step L b d c by (simp del: last.simps)
qed

lemma flushCount_run_append:
  "dispatched w' = dispatched w @ map (\<lambda>e. ADD_REACTION_BUFFER (snd e)) evs
    \<Longrightarrow> flushCount w' = flushCount w \<and> flushedBuffers w' = flushedBuffers w"
  by (induction evs arbitrary: w' rule: rev_induct)
    (simp_all add: flushCount_def flushedBuffers_def)

text \<open>
  C1. Reactions arriving in time order within 500 units of the first one, in a world with
  an empty buffer and no pending timer, leave exactly one timer pending, due 500 after the
  last arrival (each arrival has cancelled the timer before it). Up to that time no flush
  has fired and the buffer holds every reaction in arrival order; from that time on exactly
  one flush has fired, it pushed exactly those reactions in that order, the buffer is empty
  again and no timer is pending.
\<close>

theorem debounced_flush_fires_once:
  assumes "evs \<noteq> []" and "sorted (map fst evs)"
    and "\<forall>e \<in> set evs. fst e < fst (hd evs) + 500"
    and "now w \<le> fst (hd evs)" and "timers w = []" and "buffer (st w) = []"
  shows "map snd (timers (run E evs w)) = [fst (last evs) + 500]
    \<and> (T < fst (last evs) + 500 \<longrightarrow>
          flushCount (advance E T (run E evs w)) = flushCount w
        \<and> flushedBuffers (advance E T (run E evs w)) = flushedBuffers w
        \<and> buffer (st (advance E T (run E evs w))) = map snd evs
        \<and> map snd (timers (advance E T (run E evs w))) = [fst (last evs) + 500])
    \<and> (fst (last evs) + 500 \<le> T \<longrightarrow>
          flushCount (advance E T (run E evs w)) = flushCount w + 1
        \<and> flushedBuffers (advance E T (run E evs w)) = flushedBuffers w @ [map snd evs]
        \<and> buffer (st (advance E T (run E evs w))) = []
        \<and> timers (advance E T (run E evs w)) = [])"
proof -
  from assms(1) obtain e es where evs: "evs = e # es"
    by (cases evs) auto
  let ?a = "advance E (fst e) w"
  let ?w = "dispatch_ADD_REACTION_BUFFER (snd e) ?a"
  let ?r = "run E evs w"
  let ?tn = "fst (last evs)"
  have a: "?a = w\<lparr>now := fst e\<rparr>"
    using advance_idle [OF assms(5), of E "fst e"] assms(4) by (simp add: evs max_def)
  have idle: "timers ?a = [] \<or> (\<exists>d. timers ?a = [(0, d)] \<and> timeoutID (st ?a) = Some 0)"
    using assms(5) by (simp add: a)
  note r = ADD_rearms [OF idle, of "snd e"]
  have n: "now ?w = fst e"
    using r(4) by (simp add: a)
  have 1: "timers ?w = [(nextTimer ?a, now ?w + 500)]"
    using r(1) r(4) by simp
  have 3: "sorted (map fst es)"
    using assms(2) by (simp add: evs)
  have 4: "\<forall>e' \<in> set es. now ?w \<le> fst e' \<and> fst e' < fst e + 500"
    using assms(2,3) n by (auto simp: evs)
  have 5: "fst e \<le> now ?w"
    using n by simp
  have l: "last (now ?w # map fst es) = ?tn"
    by (simp add: evs n last_map)
  from run_armed [OF 1 r(2) 3 4 5, of E] obtain k' where
    tm: "timers ?r = [(k', ?tn + 500)]" and nw: "now ?r = ?tn"
    and bf: "buffer (st ?r) = map snd evs"
    and ds: "dispatched ?r = dispatched w @ map (\<lambda>e. ADD_REACTION_BUFFER (snd e)) evs"
    unfolding l using r(3) r(5) assms(6) by (auto simp: evs a)
  have fc: "flushCount ?r = flushCount w" "flushedBuffers ?r = flushedBuffers w"
    using flushCount_run_append [OF ds] by simp_all
  have before: "advance E T ?r = ?r\<lparr>now := max (now ?r) T\<rparr>" if "T < ?tn + 500"
    by (rule advance_not_due [OF tm that])
  have after: "advance E T ?r =
      (dispatch_FLUSH_REACTION_BUFFER E (?r\<lparr>now := max (now ?r) (?tn + 500), timers := []\<rparr>))
        \<lparr>now := max (max (now ?r) (?tn + 500)) T\<rparr>" if "?tn + 500 \<le> T"
    by (rule advance_due [OF tm that])
  have A: "map snd (timers ?r) = [?tn + 500]"
    by (simp add: tm)
  have B: "flushCount (advance E T ?r) = flushCount w
        \<and> flushedBuffers (advance E T ?r) = flushedBuffers w
        \<and> buffer (st (advance E T ?r)) = map snd evs
        \<and> map snd (timers (advance E T ?r)) = [?tn + 500]" if "T < ?tn + 500"
    using fc bf tm by (simp add: before [OF that] flushCount_def flushedBuffers_def)
  have C: "flushCount (advance E T ?r) = flushCount w + 1
        \<and> flushedBuffers (advance E T ?r) = flushedBuffers w @ [map snd evs]
        \<and> buffer (st (advance E T ?r)) = []
        \<and> timers (advance E T ?r) = []" if "?tn + 500 \<le> T"
  proof -
    let ?v = "?r\<lparr>now := max (now ?r) (?tn + 500), timers := []\<rparr>"
    let ?f = "dispatch_FLUSH_REACTION_BUFFER E ?v"
    have v: "flushCount ?v = flushCount w" "flushedBuffers ?v = flushedBuffers w"
      "buffer (st ?v) = map snd evs"
      using fc bf by (simp_all add: flushCount_def flushedBuffers_def)
    have "flushCount (?f\<lparr>now := max (max (now ?r) (?tn + 500)) T\<rparr>) = flushCount ?f"
      "flushedBuffers (?f\<lparr>now := max (max (now ?r) (?tn + 500)) T\<rparr>) = flushedBuffers ?f"
      by (simp_all add: flushCount_def flushedBuffers_def)
    then show ?thesis
      using v by (simp add: after [OF that] flushCount_FLUSH flushedBuffers_FLUSH buffer_FLUSH
          timers_FLUSH)
  qed
  from A B C show ?thesis
    by blast
qed

theorem debounced_flush_fires_once_witness:
  "map snd (timers (run exampleEnv [(0, ''like''), (100, ''clap''), (450, ''like'')] exampleWorld))
     = [950]
   \<and> flushCount (advance exampleEnv 1000
        (run exampleEnv [(0, ''like''), (100, ''clap''), (450, ''like'')] exampleWorld))
     = flushCount exampleWorld + 1
   \<and> flushedBuffers (advance exampleEnv 1000
        (run exampleEnv [(0, ''like''), (100, ''clap''), (450, ''like'')] exampleWorld))
     = flushedBuffers exampleWorld @ [[''like'', ''clap'', ''like'']]
   \<and> buffer (st (advance exampleEnv 1000
        (run exampleEnv [(0, ''like''), (100, ''clap''), (450, ''like'')] exampleWorld))) = []
   \<and> timers (advance exampleEnv 1000
        (run exampleEnv [(0, ''like''), (100, ''clap''), (450, ''like'')] exampleWorld)) = []"
proof -
  let ?evs = "[(0 :: nat, ''like''), (100, ''clap''), (450, ''like'')]"
  have h: "?evs \<noteq> []" "sorted (map fst ?evs)" "\<forall>e \<in> set ?evs. fst e < fst (hd ?evs) + 500"
    "now exampleWorld \<le> fst (hd ?evs)" "timers exampleWorld = []"
    "buffer (st exampleWorld) = []"
    by (simp_all add: example_defs)
  from debounced_flush_fires_once [OF h, of exampleEnv 1000] show ?thesis
    by simp
qed

section \<open>The mute-reactions command\<close>

text \<open>
  A mute-reactions command whose sender id is undefined or names a known participant.
  It returns without dispatching anything, so with the state as it was, when the sender id
  is undefined, when the sender is the local participant, or when the sender's role is not
  moderator (a warning is logged then). A command of a remote moderator returns too, and it
  dispatches \<open>setStartReactionsMuted\<close> and the \<open>soundsReactions\<close> setting together exactly
  when the commanded boolean differs from the current \<open>startReactionsMuted\<close> boolean;
  otherwise it dispatches nothing.
\<close>

lemma mute_command_of_known_sender:
  fixes attr sender w i p
  defines "R \<equiv> onMuteReactionsCommand attr sender w"
    and "oldState \<equiv> (startReactionsMuted (st w) = Some True)"
    and "newState \<equiv> (attr = Some ''true'')"
  shows "(sender = None \<longrightarrow> R = (Returned, w))
   \<and> (sender = Some i \<and> participantById (st w) i = Some p \<and> p_local p \<longrightarrow> R = (Returned, w))
   \<and> (sender = Some i \<and> participantById (st w) i = Some p \<and> \<not> p_local p
        \<and> p_role p \<noteq> ''moderator'' \<longrightarrow>
          fst R = Returned \<and> st (snd R) = st w \<and> dispatched (snd R) = dispatched w)
   \<and> (sender = Some i \<and> participantById (st w) i = Some p \<and> \<not> p_local p
        \<and> p_role p = ''moderator'' \<longrightarrow>
          fst R = Returned
        \<and> newActions w (snd R) =
            (if oldState \<noteq> newState
             then [SetStartReactionsMuted newState, SETTINGS_UPDATED (\<not> newState)] else [])
        \<and> st (snd R) =
            (if oldState \<noteq> newState
             then (st w)\<lparr>startReactionsMuted := Some newState, soundsReactions := \<not> newState\<rparr>
             else st w))"
  unfolding R_def oldState_def newState_def
  by (auto simp: onMuteReactionsCommand_def dispatch_SETTINGS_UPDATED_def newActions_def
      Let_def plain_defs)

lemma mute_command_of_known_sender_example:
  "onMuteReactionsCommand (Some ''true'') None exampleWorld = (Returned, exampleWorld)
   \<and> onMuteReactionsCommand (Some ''true'') (Some ''me'') exampleWorld = (Returned, exampleWorld)
   \<and> st (snd (onMuteReactionsCommand (Some ''true'') (Some ''g1'') exampleWorld))
       = st exampleWorld
   \<and> newActions exampleWorld
        (snd (onMuteReactionsCommand (Some ''true'') (Some ''m1'') exampleWorld))
       = [SetStartReactionsMuted True, SETTINGS_UPDATED False]
   \<and> newActions exampleWorld
        (snd (onMuteReactionsCommand (Some ''false'') (Some ''m1'') exampleWorld)) = []"
  using
    mute_command_of_known_sender
      [where sender = None and attr = "Some ''true''" and w = exampleWorld]
    mute_command_of_known_sender
      [where sender = "Some ''me''" and i = "''me''" and p = exampleLocal
         and attr = "Some ''true''" and w = exampleWorld]
    mute_command_of_known_sender
      [where sender = "Some ''g1''" and i = "''g1''" and p = exampleGuest
         and attr = "Some ''true''" and w = exampleWorld]
    mute_command_of_known_sender
      [where sender = "Some ''m1''" and i = "''m1''" and p = exampleModerator
         and attr = "Some ''true''" and w = exampleWorld]
    mute_command_of_known_sender
      [where sender = "Some ''m1''" and i = "''m1''" and p = exampleModerator
         and attr = "Some ''false''" and w = exampleWorld]
  by (simp add: example_defs)

text \<open>
  C2. The command of a sender that is neither the local participant nor a moderator must
  leave the state as it is and must not throw. The handler checks that the sender id is
  defined, but not that it names a participant: for an id no participant has, it reads
  \<open>local\<close> of \<open>undefined\<close> and throws a \<open>TypeError\<close>.
\<close>

theorem mute_command_of_unknown_sender_throws:
  "participantById (st exampleWorld) ''ghost'' = None
   \<and> onMuteReactionsCommand (Some ''true'') (Some ''ghost'') exampleWorld
       = (Threw TypeError, exampleWorld)"
  by (simp add: onMuteReactionsCommand_def Let_def example_defs)

section \<open>The lobby actions\<close>

lemma forEach_lobbyApproveAccess_Some:
  "forEach_lobbyApproveAccess (Some c) ps w
     = (Returned, w\<lparr>calls := calls w @ map (\<lambda>p. LobbyApproveAccess (p_id p)) ps\<rparr>)"
  by (induction ps arbitrary: w) (simp_all add: callOut_def)

lemma list_ex_eq_mem_map: "list_ex (\<lambda>p. f p = v) xs \<longleftrightarrow> v \<in> set (map f xs)"
  by (induction xs) auto

text \<open>
  C3. With a current conference, handling a chat-initialised message of moderator \<open>M1\<close>
  and attendee \<open>X\<close> dispatches the pairing (which the knocking entry of \<open>X\<close> then
  records) and the chat's own initialisation, and after them exactly one notification
  naming \<open>M1\<close> and \<open>X\<close> when \<open>X\<close> is among the knocking participants, the conference role
  of this client is moderator and the id of \<open>M1\<close> is not this client's lobby user id; in every
  other case no notification.
\<close>

theorem lobby_chat_initialized_notifies_other_moderators:
  fixes moderator attendee w conf
  defines "R \<equiv> handleLobbyChatInitialized moderator attendee w"
  assumes "currentConference (st w) = Some conf"
  shows "fst R = Returned
   \<and> newActions w (snd R) =
       [SET_LOBBY_PARTICIPANT_CHAT_STATE attendee moderator,
        OnLobbyChatInitialized moderator attendee]
       @ (if p_id attendee \<in> set (map p_id (knockingParticipants (st w)))
             \<and> getRole conf = ''moderator'' \<and> p_id moderator \<noteq> myLobbyUserId conf
          then [ShowNotification
                  \<lparr>titleKey = ''lobby.lobbyChatStartedNotification'',
                   titleArguments = Some (p_name moderator, p_name attendee),
                   customActionNameKey = []\<rparr>]
          else [])
   \<and> knockingParticipants (st (snd R)) =
       map (\<lambda>p. if p_id p = p_id attendee
                then p\<lparr>chattingWithModerator := Some (p_id moderator)\<rparr> else p)
         (knockingParticipants (st w))"
proof -
  have k: "list_ex (\<lambda>p. p_id p = p_id attendee) (knockingParticipants (st w))
      \<longleftrightarrow> p_id attendee \<in> set (map p_id (knockingParticipants (st w)))"
    by (rule list_ex_eq_mem_map)
  show ?thesis
    unfolding R_def using assms(2)
    by (simp add: handleLobbyChatInitialized_def async_def newActions_def Let_def k
        plain_defs del: set_map)
qed

theorem lobby_chat_initialized_notifies_other_moderators_witness:
  "currentConference (st exampleWorld) = Some exampleConference
   \<and> fst (handleLobbyChatInitialized exampleModerator exampleAttendee exampleWorld) = Returned
   \<and> newActions exampleWorld
        (snd (handleLobbyChatInitialized exampleModerator exampleAttendee exampleWorld)) =
       [SET_LOBBY_PARTICIPANT_CHAT_STATE exampleAttendee exampleModerator,
        OnLobbyChatInitialized exampleModerator exampleAttendee,
        ShowNotification
          \<lparr>titleKey = ''lobby.lobbyChatStartedNotification'',
           titleArguments = Some (Some ''Mona'', Some ''Xavier''),
           customActionNameKey = []\<rparr>]"
proof -
  have h: "currentConference (st exampleWorld) = Some exampleConference"
    by (simp add: example_defs)
  from lobby_chat_initialized_notifies_other_moderators
    [OF h, of exampleModerator exampleAttendee]
  show ?thesis
    by (simp add: example_defs)
qed

text \<open>
  C5. Approving or rejecting a knocking participant returns, dispatches nothing and
  leaves the redux state, the knocking participants among it, as it is; with a current
  conference its only effect is the one command \<open>lobbyApproveAccess(id)\<close> or
  \<open>lobbyDenyAccess(id)\<close>, without one it has no effect. Approving the same id twice issues
  the approve command twice and the knocking participants are still the same.
\<close>

theorem approval_only_issues_the_command:
  fixes i w approved
  defines "A \<equiv> approveKnockingParticipant i w"
    and "D \<equiv> rejectKnockingParticipant i w"
    and "S \<equiv> setKnockingParticipantApproval i approved w"
    and "AA \<equiv> approveKnockingParticipant i (snd (approveKnockingParticipant i w))"
  shows "fst A = Returned \<and> st (snd A) = st w \<and> dispatched (snd A) = dispatched w
     \<and> newCalls w (snd A) =
         (if currentConference (st w) = None then [] else [LobbyApproveAccess i])
   \<and> fst D = Returned \<and> st (snd D) = st w \<and> dispatched (snd D) = dispatched w
     \<and> newCalls w (snd D) =
         (if currentConference (st w) = None then [] else [LobbyDenyAccess i])
   \<and> fst S = Returned \<and> st (snd S) = st w \<and> dispatched (snd S) = dispatched w
     \<and> newCalls w (snd S) =
         (if currentConference (st w) = None then []
          else if approved then [LobbyApproveAccess i] else [LobbyDenyAccess i])
   \<and> fst AA = Returned \<and> st (snd AA) = st w \<and> dispatched (snd AA) = dispatched w
     \<and> knockingParticipants (st (snd AA)) = knockingParticipants (st w)
     \<and> newCalls w (snd AA) =
         (if currentConference (st w) = None then []
          else [LobbyApproveAccess i, LobbyApproveAccess i])"
  unfolding A_def D_def S_def AA_def
  by (simp add: approveKnockingParticipant_def rejectKnockingParticipant_def
      setKnockingParticipantApproval_def async_def newCalls_def callOut_def
      split: option.splits)

theorem approval_only_issues_the_command_witness:
  "newCalls exampleWorld
     (snd (approveKnockingParticipant ''x'' (snd (approveKnockingParticipant ''x'' exampleWorld))))
     = [LobbyApproveAccess ''x'', LobbyApproveAccess ''x'']
   \<and> knockingParticipants
       (st (snd (approveKnockingParticipant ''x''
          (snd (approveKnockingParticipant ''x'' exampleWorld)))))
     = [exampleAttendee]
   \<and> newCalls exampleWorld (snd (rejectKnockingParticipant ''x'' exampleWorld))
     = [LobbyDenyAccess ''x'']"
  using approval_only_issues_the_command [where i = "''x''" and w = exampleWorld]
  by (simp add: example_defs)

lemma forEach_lobbyApproveAccess_on_returning:
  assumes "\<forall>p \<in> set xs. returns (outcome (p_id p))"
  shows "forEach_lobbyApproveAccess_on outcome (Some c) (xs @ rest) w
     = forEach_lobbyApproveAccess_on outcome (Some c) rest
         (w\<lparr>calls := calls w @ map (\<lambda>p. LobbyApproveAccess (p_id p)) xs\<rparr>)"
  using assms
proof (induction xs arbitrary: w)
  case Nil
  then show ?case by simp
next
  case (Cons x xs)
  from Cons.prems have "returns (outcome (p_id x))"
    by simp
  then have step: "forEach_lobbyApproveAccess_on outcome (Some c) ((x # xs) @ rest) w
      = forEach_lobbyApproveAccess_on outcome (Some c) (xs @ rest)
          (callOut (LobbyApproveAccess (p_id x)) w)"
    by (cases "outcome (p_id x)") simp_all
  from Cons.prems have "\<forall>p \<in> set xs. returns (outcome (p_id p))"
    by simp
  from Cons.IH [OF this] show ?case
    unfolding step by (simp add: callOut_def)
qed

lemma admitMultiple_on_returning:
  assumes "\<forall>p \<in> set ps. returns (outcome (p_id p))"
  shows "admitMultiple_on outcome ps w = admitMultiple ps w"
proof (cases "currentConference (st w)")
  case None
  then show ?thesis
    by (cases ps) (simp_all add: admitMultiple_on_def admitMultiple_def)
next
  case (Some c)
  from forEach_lobbyApproveAccess_on_returning [OF assms, of c "[]" w] show ?thesis
    by (simp add: admitMultiple_on_def admitMultiple_def Some forEach_lobbyApproveAccess_Some)
qed




text \<open>
  C9. The handlers do throw. \<open>admitMultiple\<close> with a participant to admit and no current
  conference throws a \<open>TypeError\<close>, where \<open>approveKnockingParticipant\<close> checks the
  conference first and returns; a mute-reactions command whose sender id names no known
  participant throws a \<open>TypeError\<close> out of the command listener; \<open>startKnocking\<close> without a
  members-only conference rejects its promise with a \<open>TypeError\<close>.
\<close>

theorem handlers_throw_TypeError:
  "currentConference (st exampleNoConferenceWorld) = None
   \<and> fst (admitMultiple [exampleAttendee] exampleNoConferenceWorld) = Threw TypeError
   \<and> fst (approveKnockingParticipant ''x'' exampleNoConferenceWorld) = Returned
   \<and> participantById (st exampleWorld) ''ghost'' = None
   \<and> fst (onMuteReactionsCommand (Some ''true'') (Some ''ghost'') exampleWorld) = Threw TypeError
   \<and> membersOnly (st exampleNoConferenceWorld) = None
   \<and> fst (startKnocking exampleNoConferenceWorld) = Rejected TypeError"
  by (simp add: admitMultiple_def approveKnockingParticipant_def onMuteReactionsCommand_def
      startKnocking_def dispatch_CONFERENCE_WILL_JOIN_def async_def Let_def example_defs)

lemma moderator_leave_knocking:
  assumes "knocking (st w)" and "lobbyMessageRecipient (st w) = Some r" and "p_id r = M"
  shows "updateLobbyParticipantOnModeratorLeave (Some M) w
    = (Returned, dispatch_plain (RemoveLobbyChatParticipant True) w)"
  using assms by (simp add: updateLobbyParticipantOnModeratorLeave_def async_def)

lemma moderator_leave_knocking_idle:
  assumes "knocking (st w)" and "lobbyMessageRecipient (st w) = None"
  shows "updateLobbyParticipantOnModeratorLeave m w = (Returned, w)"
  using assms by (simp add: updateLobbyParticipantOnModeratorLeave_def async_def)

lemma moderator_leave_nobody:
  assumes "\<not> knocking (st w)"
    and "find (\<lambda>p. chattingWithModerator p = m) (knockingParticipants (st w)) = None"
  shows "updateLobbyParticipantOnModeratorLeave m w
    = (Returned, dispatch_plain (REMOVE_LOBBY_CHAT_WITH_MODERATOR m) w)"
  using assms by (simp add: updateLobbyParticipantOnModeratorLeave_def async_def)

lemma moderator_leave_notify:
  assumes "\<not> knocking (st w)"
    and "find (\<lambda>p. chattingWithModerator p = m) (knockingParticipants (st w)) = Some p"
    and "conference (st w) = Some c"
  shows "updateLobbyParticipantOnModeratorLeave m w
    = (Returned,
       dispatch_plain (REMOVE_LOBBY_CHAT_WITH_MODERATOR m)
         (callOut (SendLobbyMessage (MODERATOR_IN_CHAT_WITH_LEFT (chattingWithModerator p))
            (p_id p)) w))"
  using assms by (simp add: updateLobbyParticipantOnModeratorLeave_def async_def)

lemma pairing_dropped:
  "Some M \<notin> set (map chattingWithModerator
     (map (\<lambda>p. if chattingWithModerator p = Some M then p\<lparr>chattingWithModerator := None\<rparr>
               else p) ps))"
  by (induction ps) auto

text \<open>
  C4. An event that the moderator \<open>M\<close> left. On a knocking client whose lobby chat
  recipient is \<open>M\<close>, the chat is terminated locally, and the same event delivered again
  returns with the world as it is. On a client that is not knocking, with a conference
  object, the first knocking participant chatting with \<open>M\<close>, if there is one, is sent the
  lobby message that \<open>M\<close> left, and the pairing of \<open>M\<close> is dropped: afterwards no knocking
  participant is chatting with \<open>M\<close>.
\<close>

theorem moderator_left_ends_chat_once_or_drops_pairing:
  fixes M w r
  defines "R \<equiv> updateLobbyParticipantOnModeratorLeave (Some M) w"
  shows "(knocking (st w) \<and> lobbyMessageRecipient (st w) = Some r \<and> p_id r = M \<longrightarrow>
            fst R = Returned
          \<and> newActions w (snd R) = [RemoveLobbyChatParticipant True]
          \<and> calls (snd R) = calls w
          \<and> lobbyMessageRecipient (st (snd R)) = None
          \<and> updateLobbyParticipantOnModeratorLeave (Some M) (snd R) = (Returned, snd R))
   \<and> (\<not> knocking (st w) \<and> conference (st w) \<noteq> None \<longrightarrow>
            fst R = Returned
          \<and> newCalls w (snd R) =
              (case find (\<lambda>p. chattingWithModerator p = Some M) (knockingParticipants (st w)) of
                 None \<Rightarrow> []
               | Some p \<Rightarrow> [SendLobbyMessage (MODERATOR_IN_CHAT_WITH_LEFT (Some M)) (p_id p)])
          \<and> newActions w (snd R) = [REMOVE_LOBBY_CHAT_WITH_MODERATOR (Some M)]
          \<and> Some M \<notin> set (map chattingWithModerator (knockingParticipants (st (snd R)))))"
proof -
  have 1: "fst R = Returned
          \<and> newActions w (snd R) = [RemoveLobbyChatParticipant True]
          \<and> calls (snd R) = calls w
          \<and> lobbyMessageRecipient (st (snd R)) = None
          \<and> updateLobbyParticipantOnModeratorLeave (Some M) (snd R) = (Returned, snd R)"
    if "knocking (st w)" and "lobbyMessageRecipient (st w) = Some r" and "p_id r = M"
  proof -
    let ?v = "dispatch_plain (RemoveLobbyChatParticipant True) w"
    have R: "R = (Returned, ?v)"
      unfolding R_def by (rule moderator_leave_knocking [OF that])
    have v: "knocking (st ?v)" "lobbyMessageRecipient (st ?v) = None"
      using that(1) by (simp_all add: plain_defs)
    have again: "updateLobbyParticipantOnModeratorLeave (Some M) (snd (Returned, ?v))
        = (Returned, snd (Returned, ?v))"
      by (simp only: snd_conv moderator_leave_knocking_idle [OF v])
    have first: "fst (Returned, ?v) = Returned
        \<and> newActions w (snd (Returned, ?v)) = [RemoveLobbyChatParticipant True]
        \<and> calls (snd (Returned, ?v)) = calls w
        \<and> lobbyMessageRecipient (st (snd (Returned, ?v))) = None"
      by (simp add: newActions_def plain_defs)
    show ?thesis
      unfolding R using first again by blast
  qed
  have 2: "fst R = Returned
          \<and> newCalls w (snd R) =
              (case find (\<lambda>p. chattingWithModerator p = Some M) (knockingParticipants (st w)) of
                 None \<Rightarrow> []
               | Some p \<Rightarrow> [SendLobbyMessage (MODERATOR_IN_CHAT_WITH_LEFT (Some M)) (p_id p)])
          \<and> newActions w (snd R) = [REMOVE_LOBBY_CHAT_WITH_MODERATOR (Some M)]
          \<and> Some M \<notin> set (map chattingWithModerator (knockingParticipants (st (snd R))))"
    if "\<not> knocking (st w)" and "conference (st w) \<noteq> None"
  proof -
    from that(2) obtain c where c: "conference (st w) = Some c"
      by auto
    show ?thesis
    proof (cases "find (\<lambda>p. chattingWithModerator p = Some M) (knockingParticipants (st w))")
      case None
      show ?thesis
        unfolding R_def moderator_leave_nobody [OF that(1) None]
        using pairing_dropped [of M "knockingParticipants (st w)"]
        by (simp add: None newActions_def newCalls_def plain_defs del: set_map)
    next
      case (Some p)
      then have p: "chattingWithModerator p = Some M"
        by (auto simp: find_Some_iff)
      show ?thesis
        unfolding R_def moderator_leave_notify [OF that(1) Some c]
        using pairing_dropped [of M "knockingParticipants (st w)"]
        by (simp add: Some p newActions_def newCalls_def plain_defs del: set_map)
    qed
  qed
  from 1 2 show ?thesis
    by blast
qed

theorem moderator_left_ends_chat_once_or_drops_pairing_witness:
  "newActions exampleKnockingWorld
      (snd (updateLobbyParticipantOnModeratorLeave (Some ''m1'') exampleKnockingWorld))
     = [RemoveLobbyChatParticipant True]
   \<and> updateLobbyParticipantOnModeratorLeave (Some ''m1'')
       (snd (updateLobbyParticipantOnModeratorLeave (Some ''m1'') exampleKnockingWorld))
     = (Returned, snd (updateLobbyParticipantOnModeratorLeave (Some ''m1'') exampleKnockingWorld))
   \<and> newCalls exampleWorld
       (snd (updateLobbyParticipantOnModeratorLeave (Some ''m1'') exampleWorld))
     = [SendLobbyMessage (MODERATOR_IN_CHAT_WITH_LEFT (Some ''m1'')) ''x'']
   \<and> newActions exampleWorld
       (snd (updateLobbyParticipantOnModeratorLeave (Some ''m1'') exampleWorld))
     = [REMOVE_LOBBY_CHAT_WITH_MODERATOR (Some ''m1'')]"
  using
    moderator_left_ends_chat_once_or_drops_pairing
      [where M = "''m1''" and w = exampleKnockingWorld and r = exampleModerator]
    moderator_left_ends_chat_once_or_drops_pairing
      [where M = "''m1''" and w = exampleWorld and r = exampleModerator]
  by (simp add: example_defs)

section \<open>The web message recipient\<close>

text \<open>
  C10, as the claim states it, fails in its last part: with no private-message recipient
  and no challenge-response recipient set, but the challenge-response flag active and the
  local participant a moderator, the widget is rendered, with no recipient name.
\<close>

theorem message_recipient_counterexample:
  "privateMessageRecipient (exampleState\<lparr>challengeResponseIsActive := True\<rparr>) = None
   \<and> challengeResponseRecipient (exampleState\<lparr>challengeResponseIsActive := True\<rparr>) = None
   \<and> render (mapStateToProps (exampleState\<lparr>challengeResponseIsActive := True\<rparr>))
       = Some \<lparr>className = ''challenge-response-recipient'',
               labelKey = ''chat.challengeResponseMessageTo'',
               recipient = None,
               onClick = OnHideChallengeResponseRecipient\<rparr>"
  by (simp add: render_def mapStateToProps_def truthy_def exampleState_def)

text \<open>
  C10, amended. When a private-message recipient and an active challenge-response
  recipient are both set and the local participant is a moderator, the widget shows the
  challenge-response recipient: its name, its label and its close handler. While the
  challenge-response chat is active the widget is rendered exactly when the local
  participant is a moderator. When no private-message recipient is set and the
  challenge-response chat is not active, nothing is rendered.
\<close>

theorem message_recipient_precedence:
  "(challengeResponseIsActive s \<and> challengeResponseRecipient s = Some r
      \<and> privateMessageRecipient s = Some q \<and> isLocalParticipantModerator s \<longrightarrow>
        render (mapStateToProps s)
          = Some \<lparr>className = ''challenge-response-recipient'',
                  labelKey = ''chat.challengeResponseMessageTo'',
                  recipient = p_name r,
                  onClick = OnHideChallengeResponseRecipient\<rparr>)
   \<and> (challengeResponseIsActive s \<longrightarrow>
        (render (mapStateToProps s) \<noteq> None \<longleftrightarrow> isLocalParticipantModerator s))
   \<and> (privateMessageRecipient s = None \<and> \<not> challengeResponseIsActive s \<longrightarrow>
        render (mapStateToProps s) = None)"
  by (simp add: render_def mapStateToProps_def truthy_def)

theorem message_recipient_precedence_witness:
  "render (mapStateToProps
      (exampleState\<lparr>challengeResponseIsActive := True,
         challengeResponseRecipient := Some exampleAttendee,
         privateMessageRecipient := Some exampleGuest\<rparr>))
     = Some \<lparr>className = ''challenge-response-recipient'',
             labelKey = ''chat.challengeResponseMessageTo'',
             recipient = Some ''Xavier'',
             onClick = OnHideChallengeResponseRecipient\<rparr>
   \<and> render (mapStateToProps
      (exampleState\<lparr>challengeResponseIsActive := True,
         challengeResponseRecipient := Some exampleAttendee,
         isLocalParticipantModerator := False\<rparr>)) = None
   \<and> render (mapStateToProps exampleState) = None"
  using
    message_recipient_precedence
      [where s = "exampleState\<lparr>challengeResponseIsActive := True,
           challengeResponseRecipient := Some exampleAttendee,
           privateMessageRecipient := Some exampleGuest\<rparr>"
         and r = exampleAttendee and q = exampleGuest]
    message_recipient_precedence
      [where s = "exampleState\<lparr>challengeResponseIsActive := True,
           challengeResponseRecipient := Some exampleAttendee,
           isLocalParticipantModerator := False\<rparr>"
         and r = exampleAttendee and q = exampleGuest]
    message_recipient_precedence
      [where s = exampleState and r = exampleAttendee and q = exampleGuest]
  by (simp add: example_defs)

end
